theory Spec2Isabelle
  imports Main "HOL-Library.Word" "HOL-Library.Char_ord"
begin

unbundle bit_operations_syntax

section \<open>JavaScript values\<close>

text \<open>
  A decoded JSON value. A number is kept by its canonical decimal text, the text
  \<^verbatim>\<open>String(n)\<close> gives for it (both zeros print as \<^verbatim>\<open>0\<close>); an object is its list of
  properties, looked up with \<^const>\<open>map_of\<close>.
\<close>

datatype json =
    JNull
  | JBool bool
  | JNum string
  | JStr string
  | JArr "json list"
  | JObj "(string \<times> json) list"

text \<open>Truthiness, as \<^verbatim>\<open>if (v)\<close> and \<^verbatim>\<open>v || w\<close> test it.\<close>

fun truthy :: "json \<Rightarrow> bool" where
  "truthy JNull = False"
| "truthy (JBool b) = b"
| "truthy (JNum n) = (n \<noteq> ''0'')"
| "truthy (JStr s) = (s \<noteq> [])"
| "truthy (JArr vs) = True"
| "truthy (JObj kvs) = True"

fun join :: "'a list \<Rightarrow> 'a list list \<Rightarrow> 'a list" where
  "join sep [] = []"
| "join sep [p] = p"
| "join sep (p # q # ps) = p @ sep @ join sep (q # ps)"

text \<open>
  The string conversion \<^verbatim>\<open>String(v)\<close>, which \<^verbatim>\<open>new Error(v)\<close> applies to its argument:
  a string is itself, an array joins its elements with commas (null prints as nothing
  there), a plain object prints as \<^verbatim>\<open>[object Object]\<close>.
\<close>

fun js_String :: "json \<Rightarrow> string" where
  "js_String JNull = ''null''"
| "js_String (JBool b) = (if b then ''true'' else ''false'')"
| "js_String (JNum n) = n"
| "js_String (JStr s) = s"
| "js_String (JArr vs) = join '','' (map (\<lambda>v. if v = JNull then [] else js_String v) vs)"
| "js_String (JObj kvs) = ''[object Object]''"

text \<open>
  What a \<^verbatim>\<open>throw\<close> carries: an \<^verbatim>\<open>Error\<close> with its message, a \<^verbatim>\<open>TypeError\<close>, the
  \<^verbatim>\<open>ResponseError\<close> of utils.ts with its message and status code, or a thrown value
  that is no instance of \<^verbatim>\<open>Error\<close>.
\<close>

datatype error =
    Error string
  | TypeError string
  | ResponseError string nat
  | Thrown string

fun instanceof_Error :: "error \<Rightarrow> bool" where
  "instanceof_Error (Thrown v) = False"
| "instanceof_Error e = True"

fun message :: "error \<Rightarrow> string" where
  "message (Error m) = m"
| "message (TypeError m) = m"
| "message (ResponseError m c) = m"
| "message (Thrown v) = []"

section \<open>AbortableAsyncIterator\<close>

text \<open>
  One item of a streamed response: an object \<^verbatim>\<open>T | ErrorResponse\<close>, \<^verbatim>\<open>T extends object\<close>.
\<close>

type_synonym item = "(string \<times> json) list"

text \<open>\<^verbatim>\<open>'error' in message\<close>\<close>

definition has_error :: "item \<Rightarrow> bool" where
  "has_error m = (map_of m ''error'' \<noteq> None)"

text \<open>\<^verbatim>\<open>message.done || message.status === 'success'\<close>; a missing property is undefined.\<close>

definition completion :: "item \<Rightarrow> bool" where
  "completion m =
     ((case map_of m ''done'' of None \<Rightarrow> False | Some v \<Rightarrow> truthy v)
      \<or> map_of m ''status'' = Some (JStr ''success''))"

text \<open>
  The inner generator \<^verbatim>\<open>itr\<close> hands over its items and then either finishes or throws
  (a failed read of the response body).
\<close>

datatype inner_end = InnerDone | InnerThrows error

datatype outcome = Returned | Threw error

definition no_completion :: error where
  "no_completion = Error ''Did not receive done or success response in stream.''"

text \<open>
  \<^verbatim>\<open>async *[Symbol.asyncIterator]()\<close>, run to its end by a consumer: the items yielded, how
  the iteration ends, and the state \<^verbatim>\<open>doneCallback\<close> works on. The items after the one
  that ends the loop are never asked of the inner generator.
\<close>

fun asyncIterator ::
  "('s \<Rightarrow> 's) \<Rightarrow> item list \<Rightarrow> inner_end \<Rightarrow> 's \<Rightarrow> item list \<times> outcome \<times> 's" where
  "asyncIterator doneCallback [] InnerDone s = ([], Threw no_completion, s)"
| "asyncIterator doneCallback [] (InnerThrows e) s = ([], Threw e, s)"
| "asyncIterator doneCallback (m # ms) fin s =
     (case map_of m ''error'' of
        Some v \<Rightarrow> ([], Threw (Error (js_String v)), s)
      | None \<Rightarrow>
          if completion m then ([m], Returned, doneCallback s)
          else (case asyncIterator doneCallback ms fin s of
                  (ys, out, s') \<Rightarrow> (m # ys, out, s')))"

text \<open>The items the loop \<^verbatim>\<open>for await (const message of this.itr)\<close> receives.\<close>

fun produced :: "item list \<Rightarrow> item list" where
  "produced [] = []"
| "produced (m # ms) = (if has_error m \<or> completion m then [m] else m # produced ms)"

text \<open>An item that neither raises nor completes: the loop goes on after it.\<close>

definition passes :: "item \<Rightarrow> bool" where
  "passes m = (\<not> has_error m \<and> \<not> completion m)"

section \<open>The registry of ongoing streamed requests\<close>

text \<open>
  The client's mutable state: \<^verbatim>\<open>ongoingStreamedRequests\<close> holds the identities of the
  registered iterators; \<^verbatim>\<open>aborted r\<close> is \<^verbatim>\<open>signal.aborted\<close> of the AbortController that
  iterator \<^verbatim>\<open>r\<close> owns.
\<close>

record client =
  ongoingStreamedRequests :: "nat list"
  aborted :: "nat \<Rightarrow> bool"

fun indexOf :: "'a list \<Rightarrow> 'a \<Rightarrow> int" where
  "indexOf [] x = - 1"
| "indexOf (y # ys) x =
     (if y = x then 0 else (let i = indexOf ys x in if i > - 1 then i + 1 else - 1))"

text \<open>\<^verbatim>\<open>xs.splice(i, 1)\<close> for an index in range.\<close>

definition splice1 :: "'a list \<Rightarrow> nat \<Rightarrow> 'a list" where
  "splice1 xs i = take i xs @ drop (Suc i) xs"

text \<open>The callback processStreamableRequest gives to the iterator \<^verbatim>\<open>self\<close>.\<close>

definition doneCallback :: "nat \<Rightarrow> client \<Rightarrow> client" where
  "doneCallback self c =
     (let i = indexOf (ongoingStreamedRequests c) self
      in if i > - 1
         then c\<lparr>ongoingStreamedRequests := splice1 (ongoingStreamedRequests c) (nat i)\<rparr>
         else c)"



section \<open>Strings\<close>

fun startsWith :: "'a list \<Rightarrow> 'a list \<Rightarrow> bool" where
  "startsWith s [] = True"
| "startsWith [] (p # ps) = False"
| "startsWith (c # cs) (p # ps) = (c = p \<and> startsWith cs ps)"


fun includes_js :: "'a list \<Rightarrow> 'a list \<Rightarrow> bool" where
  "includes_js [] p = (p = [])"
| "includes_js (c # cs) p = (startsWith (c # cs) p \<or> includes_js cs p)"

text \<open>The decimal text of a number, as a template literal prints a status code.\<close>

fun show_nat :: "nat \<Rightarrow> string" where
  "show_nat n =
     (if n < 10 then [''0123456789'' ! n] else show_nat (n div 10) @ [''0123456789'' ! (n mod 10)])"

declare show_nat.simps [simp del]

section \<open>Requests and responses\<close>

type_synonym byte = "8 word"

text \<open>
  The value of a property of a headers object: a string, or, when an object was put
  where a string belongs, that object.
\<close>

datatype hvalue = HString string | HObject "string \<Rightarrow> hvalue option"

type_synonym headers = "string \<Rightarrow> hvalue option"

text \<open>
  A web ReadableStream built from a controller: the chunks enqueued and whether it is
  closed, errored, or left open for ever.
\<close>

datatype ending = Closed | Errored error | Open

record readable_stream =
  enqueued :: "byte list list"
  ending :: ending

text \<open>
  The \<^verbatim>\<open>data\<close> of \<^verbatim>\<open>post\<close>: a plain record, a ReadableStream, or text.
\<close>

datatype post_data = Record "(string \<times> json) list" | Stream readable_stream | Text string

text \<open>
  A request body: \<^verbatim>\<open>Stringified v\<close> is the text \<^verbatim>\<open>JSON.stringify\<close> gives for a value that
  serialises as \<^verbatim>\<open>v\<close>; \<^verbatim>\<open>Unchanged d\<close> is the data handed to the transport as it is.
\<close>

datatype body = Stringified json | Unchanged post_data

record request =
  url :: string
  http_method :: "string option"
  headers :: headers
  body :: "body option"
  signal :: "nat option"

text \<open>
  What the code reads of a Response. \<^verbatim>\<open>json_body\<close> and \<^verbatim>\<open>text_body\<close> are the results of
  \<^verbatim>\<open>response.json()\<close> and \<^verbatim>\<open>response.text()\<close>, None when the call rejects.
\<close>

record response =
  status :: nat
  statusText :: string
  content_type :: "string option"
  json_body :: "json option"
  text_body :: "string option"

text \<open>\<^verbatim>\<open>response.ok\<close>: the status is in the range 200 to 299.\<close>

definition ok :: "response \<Rightarrow> bool" where
  "ok r = (200 \<le> status r \<and> status r \<le> 299)"

text \<open>The transport: it rejects with what it throws, or resolves with a response.\<close>

type_synonym fetch = "request \<Rightarrow> error + response"

text \<open>
  The platform the library runs on: whether \<^verbatim>\<open>ReadableStream\<close> is defined, what a
  stream made by \<^verbatim>\<open>createReadStream\<close> emits (its data chunks, then \<^verbatim>\<open>end\<close> or an error),
  the hex SHA-256 of a byte sequence, the User-Agent text, whether \<^verbatim>\<open>promises.access\<close>
  succeeds on a path, and \<^verbatim>\<open>homedir()\<close>, \<^verbatim>\<open>join\<close> and \<^verbatim>\<open>resolve\<close> of the path module.
\<close>

record env =
  has_ReadableStream :: bool
  readFile_chunks :: "string \<Rightarrow> byte list list \<times> error option"
  sha256_hex :: "byte list \<Rightarrow> string"
  user_agent :: string
  access :: "string \<Rightarrow> bool"
  homedir :: string
  path_join :: "string \<Rightarrow> string \<Rightarrow> string"
  path_resolve :: "string \<Rightarrow> string \<Rightarrow> string"

record config =
  host :: string
  apiKey :: "string option"

text \<open>\<^verbatim>\<open>`Bearer ${this.config.apiKey}`\<close>; an undefined key prints as \<^verbatim>\<open>undefined\<close>.\<close>

definition bearer :: "config \<Rightarrow> string" where
  "bearer cfg = ''Bearer '' @ (case apiKey cfg of None \<Rightarrow> ''undefined'' | Some k \<Rightarrow> k)"

text \<open>
  \<^verbatim>\<open>checkOk\<close>: nothing for an ok response; otherwise a ResponseError whose message is the
  truthy \<^verbatim>\<open>error\<close> property of a JSON body, or the non-empty text of another body, or
  the status line. Reading a property of null throws inside the \<^verbatim>\<open>try\<close>.
\<close>

definition checkOk :: "response \<Rightarrow> error + unit" where
  "checkOk response =
     (if ok response then Inr ()
      else
        let message0 = ''Error '' @ show_nat (status response) @ '': '' @ statusText response;
            is_json = (case content_type response of
                         None \<Rightarrow> False
                       | Some ct \<Rightarrow> includes_js ct ''application/json'');
            message1 =
              (if is_json then
                 (case json_body response of
                    Some (JObj errorData) \<Rightarrow>
                      (case map_of errorData ''error'' of
                         Some v \<Rightarrow> if truthy v then js_String v else message0
                       | None \<Rightarrow> message0)
                  | _ \<Rightarrow> message0)
               else
                 (case text_body response of
                    Some textResponse \<Rightarrow> if textResponse \<noteq> [] then textResponse else message0
                  | None \<Rightarrow> message0))
        in Inl (ResponseError message1 (status response)))"

definition defaultHeaders :: "env \<Rightarrow> headers" where
  "defaultHeaders env =
     [''Content-Type'' \<mapsto> HString ''application/json'',
      ''Accept'' \<mapsto> HString ''application/json'',
      ''User-Agent'' \<mapsto> HString (user_agent env)]"

text \<open>
  \<^verbatim>\<open>fetchWithHeaders\<close>: the default headers, overridden by the properties of
  \<^verbatim>\<open>options.headers\<close>; the result of the transport and the request it was given.
\<close>

definition fetchWithHeaders ::
  "env \<Rightarrow> fetch \<Rightarrow> string \<Rightarrow> string option \<Rightarrow> headers option \<Rightarrow> body option \<Rightarrow> nat option
   \<Rightarrow> (error + response) \<times> request list" where
  "fetchWithHeaders env fetch u meth hdrs bdy sig =
     (let req = \<lparr>url = u, http_method = meth,
                 headers = defaultHeaders env ++ (case hdrs of None \<Rightarrow> Map.empty | Some h \<Rightarrow> h),
                 body = bdy, signal = sig\<rparr>
      in (fetch req, [req]))"

text \<open>\<^verbatim>\<open>await checkOk(response); return response\<close> after the awaited fetch.\<close>

definition checked :: "(error + response) \<times> request list \<Rightarrow> (error + response) \<times> request list" where
  "checked p =
     (case p of
        (Inl e, sent) \<Rightarrow> (Inl e, sent)
      | (Inr response, sent) \<Rightarrow>
          (case checkOk response of Inl e \<Rightarrow> (Inl e, sent) | Inr u \<Rightarrow> (Inr response, sent)))"

definition get :: "env \<Rightarrow> fetch \<Rightarrow> string \<Rightarrow> headers option \<Rightarrow> (error + response) \<times> request list" where
  "get env fetch u hdrs = checked (fetchWithHeaders env fetch u None hdrs None None)"

definition head :: "env \<Rightarrow> fetch \<Rightarrow> string \<Rightarrow> headers option \<Rightarrow> (error + response) \<times> request list" where
  "head env fetch u hdrs = checked (fetchWithHeaders env fetch u (Some ''HEAD'') hdrs None None)"

text \<open>
  \<^verbatim>\<open>isRecord\<close> holds of every value that is an object, not null and not an array, so of
  a ReadableStream too; \<^verbatim>\<open>JSON.stringify\<close> of a ReadableStream, which has no enumerable
  property of its own, is the text of the empty object.
\<close>

fun isRecord :: "post_data \<Rightarrow> bool" where
  "isRecord (Record r) = True"
| "isRecord (Stream s) = True"
| "isRecord (Text t) = False"

fun JSON_stringify :: "post_data \<Rightarrow> body" where
  "JSON_stringify (Record r) = Stringified (JObj r)"
| "JSON_stringify (Stream s) = Stringified (JObj [])"
| "JSON_stringify (Text t) = Stringified (JStr t)"

record post_options =
  opt_signal :: "nat option"
  opt_headers :: "headers option"

definition post ::
  "env \<Rightarrow> fetch \<Rightarrow> string \<Rightarrow> post_data option \<Rightarrow> post_options option
   \<Rightarrow> (error + response) \<times> request list" where
  "post env fetch u data options =
     (let formattedData =
            (case data of
               None \<Rightarrow> None
             | Some d \<Rightarrow> Some (if isRecord d then JSON_stringify d else Unchanged d))
      in checked (fetchWithHeaders env fetch u (Some ''POST'')
            (case options of None \<Rightarrow> None | Some opts \<Rightarrow> opt_headers opts)
            formattedData
            (case options of None \<Rightarrow> None | Some opts \<Rightarrow> opt_signal opts)))"

definition del ::
  "env \<Rightarrow> fetch \<Rightarrow> string \<Rightarrow> (string \<times> json) list option \<Rightarrow> headers option
   \<Rightarrow> (error + response) \<times> request list" where
  "del env fetch u data hdrs =
     checked (fetchWithHeaders env fetch u (Some ''DELETE'')
       hdrs (map_option (\<lambda>d. JSON_stringify (Record d)) data) None)"

section \<open>The client's buffered calls\<close>

text \<open>The value \<^verbatim>\<open>{ status: 'success' }\<close>.\<close>

definition success :: item where
  "success = [(''status'', JStr ''success'')]"

text \<open>\<^verbatim>\<open>Ollama.delete\<close>, with \<^verbatim>\<open>request.model\<close> as its argument.\<close>

definition delete :: "env \<Rightarrow> config \<Rightarrow> fetch \<Rightarrow> json \<Rightarrow> (error + item) \<times> request list" where
  "delete env cfg fetch model =
     (case del env fetch (host cfg @ ''/api/delete'') (Some [(''name'', model)])
             (Some [''Authorization'' \<mapsto> HString (bearer cfg)]) of
        (Inl e, sent) \<Rightarrow> (Inl e, sent)
      | (Inr response, sent) \<Rightarrow> (Inr success, sent))"

text \<open>\<^verbatim>\<open>Ollama.copy\<close>, with the properties of the request as its argument.\<close>

definition copy :: "env \<Rightarrow> config \<Rightarrow> fetch \<Rightarrow> (string \<times> json) list \<Rightarrow> (error + item) \<times> request list" where
  "copy env cfg fetch request =
     (case post env fetch (host cfg @ ''/api/copy'') (Some (Record request))
             (Some \<lparr>opt_signal = None,
                    opt_headers = Some [''Authorization'' \<mapsto> HString (bearer cfg)]\<rparr>) of
        (Inl e, sent) \<Rightarrow> (Inl e, sent)
      | (Inr response, sent) \<Rightarrow> (Inr success, sent))"

section \<open>Blob upload\<close>

text \<open>
  A Node file stream: the chunks it has yet to emit, how it finishes (None for \<^verbatim>\<open>end\<close>,
  an error otherwise), and whether it has flowed already. It emits each chunk and its
  final event once, to the listeners attached at that time.
\<close>

record read_stream =
  pending :: "byte list list"
  terminal :: "error option"
  flowed :: bool

datatype stream_event = End | Failure error

definition createReadStream :: "env \<Rightarrow> string \<Rightarrow> read_stream" where
  "createReadStream env path =
     \<lparr>pending = fst (readFile_chunks env path), terminal = snd (readFile_chunks env path),
      flowed = False\<rparr>"

text \<open>
  Attaching \<^verbatim>\<open>data\<close>, \<^verbatim>\<open>end\<close> and \<^verbatim>\<open>error\<close> listeners: the chunks and the final event they
  receive from then on, and the stream afterwards. A stream that has flowed gives nothing.
\<close>

definition listeners :: "read_stream \<Rightarrow> (byte list list \<times> stream_event option) \<times> read_stream" where
  "listeners s =
     (if flowed s then (([], None), s)
      else ((pending s, Some (case terminal s of None \<Rightarrow> End | Some e \<Rightarrow> Failure e)),
            s\<lparr>pending := [], flowed := True\<rparr>))"

text \<open>
  \<^verbatim>\<open>createBlob\<close>. The result is None when the promise never settles. The digest is
  computed from the listeners on \<^verbatim>\<open>fileStream\<close>; after a failed probe whose message
  includes 404, the ReadableStream is built from listeners on the same \<^verbatim>\<open>fileStream\<close>.
\<close>

definition createBlob ::
  "env \<Rightarrow> config \<Rightarrow> fetch \<Rightarrow> string \<Rightarrow> (error + string) option \<times> request list" where
  "createBlob env cfg fetch path =
     (if \<not> has_ReadableStream env
      then (Some (Inl (Error ''Streaming uploads are not supported in this environment.'')), [])
      else
        let fileStream = createReadStream env path;
            hashed = listeners fileStream
        in case snd (fst hashed) of
             None \<Rightarrow> (None, [])
           | Some (Failure err) \<Rightarrow> (Some (Inl err), [])
           | Some End \<Rightarrow>
               let digest = ''sha256:'' @ sha256_hex env (concat (fst (fst hashed)));
                   fileStream1 = snd hashed
               in case head env fetch (host cfg @ ''/api/blobs/'' @ digest)
                         (Some [''headers'' \<mapsto>
                            HObject [''Authorization'' \<mapsto> HString (bearer cfg)]]) of
                    (Inr response, sent) \<Rightarrow> (Some (Inr digest), sent)
                  | (Inl e, sent) \<Rightarrow>
                      if instanceof_Error e \<and> includes_js (message e) ''404'' then
                        let started = listeners fileStream1;
                            readableStream =
                              \<lparr>enqueued = fst (fst started),
                               ending = (case snd (fst started) of
                                           None \<Rightarrow> Open
                                         | Some End \<Rightarrow> Closed
                                         | Some (Failure err) \<Rightarrow> Errored err)\<rparr>
                        in case post env fetch (host cfg @ ''/api/blobs/'' @ digest)
                                  (Some (Stream readableStream))
                                  (Some \<lparr>opt_signal = None,
                                         opt_headers = Some
                                           [''Authorization'' \<mapsto> HString (bearer cfg),
                                            ''Content-Type'' \<mapsto>
                                              HString ''application/octet-stream'']\<rparr>) of
                             (Inl e', sent') \<Rightarrow> (Some (Inl e'), sent @ sent')
                           | (Inr response', sent') \<Rightarrow> (Some (Inr digest), sent @ sent')
                      else (Some (Inl e), sent))"

section \<open>Rewriting a model definition\<close>

text \<open>
  Text is a list of characters, a character a code unit below 256.
  \<^verbatim>\<open>s.split(sep)\<close> for a separator of one character: never an empty list.
\<close>

fun split_js :: "'a \<Rightarrow> 'a list \<Rightarrow> 'a list list" where
  "split_js sep [] = [[]]"
| "split_js sep (c # cs) =
     (if c = sep then [] # split_js sep cs
      else (case split_js sep cs of [] \<Rightarrow> [[c]] | p # ps \<Rightarrow> (c # p) # ps))"

text \<open>
  \<^verbatim>\<open>toUpperCase\<close> on the letters a to z; no other character becomes a letter of FROM or
  ADAPTER, which is all the rewriter compares the result with.
\<close>

definition to_upper :: "char \<Rightarrow> char" where
  "to_upper c =
     (case map_of (zip ''abcdefghijklmnopqrstuvwxyz'' ''ABCDEFGHIJKLMNOPQRSTUVWXYZ'') c of
        None \<Rightarrow> c
      | Some u \<Rightarrow> u)"

definition toUpperCase :: "string \<Rightarrow> string" where
  "toUpperCase s = map to_upper s"

text \<open>White space below 256: tab, line feed, vertical tab, form feed, carriage return,
  space and no-break space.\<close>

definition is_space :: "char \<Rightarrow> bool" where
  "is_space c = (c \<in> set [CHR 0x09, CHR 0x0A, CHR 0x0B, CHR 0x0C, CHR 0x0D, CHR '' '', CHR 0xA0])"

definition trim :: "string \<Rightarrow> string" where
  "trim s = rev (dropWhile is_space (rev (dropWhile is_space s)))"

definition resolvePath :: "env \<Rightarrow> string \<Rightarrow> string \<Rightarrow> string" where
  "resolvePath env inputPath mfDir =
     (if startsWith inputPath ''~'' then path_join env (homedir env) (drop 1 inputPath)
      else path_resolve env mfDir inputPath)"

definition fileExists :: "env \<Rightarrow> string \<Rightarrow> bool" where
  "fileExists env path = access env path"

text \<open>
  The loop of \<^verbatim>\<open>parseModelfile\<close> over the lines left, with \<^verbatim>\<open>out\<close> so far.
  \<^verbatim>\<open>line.split(' ', 2)\<close> keeps the first two of the pieces between spaces; \<^verbatim>\<open>args\<close> is
  undefined when there is one piece only, and \<^verbatim>\<open>args.trim()\<close> then throws. The result is
  None when a blob upload never settles.
\<close>

fun parseModelfile_loop ::
  "env \<Rightarrow> config \<Rightarrow> fetch \<Rightarrow> string \<Rightarrow> string list \<Rightarrow> string list
   \<Rightarrow> (error + string list) option" where
  "parseModelfile_loop env cfg fetch mfDir out [] = Some (Inr out)"
| "parseModelfile_loop env cfg fetch mfDir out (line # lines) =
     (case take 2 (split_js (CHR '' '') line) of
        [] \<Rightarrow> Some (Inl (TypeError ''Cannot read properties of undefined''))
      | command # rest \<Rightarrow>
          if toUpperCase command \<in> set [''FROM'', ''ADAPTER''] then
            (case rest of
               [] \<Rightarrow> Some (Inl (TypeError ''Cannot read properties of undefined''))
             | args # others \<Rightarrow>
                 let path = resolvePath env (trim args) mfDir
                 in if fileExists env path then
                      (case fst (createBlob env cfg fetch path) of
                         None \<Rightarrow> None
                       | Some (Inl e) \<Rightarrow> Some (Inl e)
                       | Some (Inr digest) \<Rightarrow>
                           parseModelfile_loop env cfg fetch mfDir
                             (out @ [command @ '' @'' @ digest]) lines)
                    else parseModelfile_loop env cfg fetch mfDir
                           (out @ [command @ '' '' @ args]) lines)
          else parseModelfile_loop env cfg fetch mfDir (out @ [line]) lines)"

definition parseModelfile ::
  "env \<Rightarrow> config \<Rightarrow> fetch \<Rightarrow> string \<Rightarrow> string \<Rightarrow> (error + string) option" where
  "parseModelfile env cfg fetch modelfile mfDir =
     (case parseModelfile_loop env cfg fetch mfDir [] (split_js (CHR 0x0A) modelfile) of
        None \<Rightarrow> None
      | Some (Inl e) \<Rightarrow> Some (Inl e)
      | Some (Inr out) \<Rightarrow> Some (Inr (join [CHR 0x0A] out)))"

text \<open>
  A line the rewriter is to leave as it is and that has at most one space: not a
  directive, or a directive with one argument that does not resolve to an existing file.
\<close>

definition kept :: "env \<Rightarrow> string \<Rightarrow> string \<Rightarrow> bool" where
  "kept env mfDir line =
     (case split_js (CHR '' '') line of
        [] \<Rightarrow> False
      | command # rest \<Rightarrow>
          toUpperCase command \<notin> set [''FROM'', ''ADAPTER'']
          \<or> (case rest of
                [args] \<Rightarrow> \<not> fileExists env (resolvePath env (trim args) mfDir)
              | _ \<Rightarrow> False))"

section \<open>Host normalisation\<close>




section \<open>The line-delimited JSON decoder\<close>

text \<open>
  Decoded text is a list of code points. The UTF-8 decoder of the Encoding standard,
  with its state: the code point under construction, the bytes seen and needed, and the
  bounds of the next byte. An error emits U+FFFD; a byte that cannot continue a sequence
  is read again as a first byte; input that ends inside a sequence emits U+FFFD.
\<close>

function utf8_decode :: "nat \<Rightarrow> nat \<Rightarrow> nat \<Rightarrow> byte \<Rightarrow> byte \<Rightarrow> byte list \<Rightarrow> nat list" where
  "utf8_decode cp seen needed lower upper [] = (if needed \<noteq> 0 then [0xFFFD] else [])"
| "utf8_decode cp seen needed lower upper (b # bs) =
     (if needed = 0 then
        (if b \<le> 0x7F then unat b # utf8_decode 0 0 0 0x80 0xBF bs
         else if 0xC2 \<le> b \<and> b \<le> 0xDF then
           utf8_decode (unat (b AND 0x1F)) 0 1 0x80 0xBF bs
         else if 0xE0 \<le> b \<and> b \<le> 0xEF then
           utf8_decode (unat (b AND 0xF)) 0 2
             (if b = 0xE0 then 0xA0 else 0x80) (if b = 0xED then 0x9F else 0xBF) bs
         else if 0xF0 \<le> b \<and> b \<le> 0xF4 then
           utf8_decode (unat (b AND 0x7)) 0 3
             (if b = 0xF0 then 0x90 else 0x80) (if b = 0xF4 then 0x8F else 0xBF) bs
         else 0xFFFD # utf8_decode 0 0 0 0x80 0xBF bs)
      else if \<not> (lower \<le> b \<and> b \<le> upper) then
        0xFFFD # utf8_decode 0 0 0 0x80 0xBF (b # bs)
      else if Suc seen \<noteq> needed then
        utf8_decode (cp * 64 + unat (b AND 0x3F)) (Suc seen) needed 0x80 0xBF bs
      else (cp * 64 + unat (b AND 0x3F)) # utf8_decode 0 0 0 0x80 0xBF bs)"
  by pat_completeness auto
termination
  by (relation "measure (\<lambda>(cp, seen, needed, lower, upper, bs).
        2 * length bs + (if needed = 0 then 0 else 1))") auto

text \<open>
  \<^verbatim>\<open>decoder.decode(chunk)\<close>, called without the stream option: every call starts from a
  fresh decoder state, flushes at the end of the chunk, and drops a byte order mark at
  the start of its output.
\<close>

definition TextDecoder_decode :: "byte list \<Rightarrow> nat list" where
  "TextDecoder_decode chunk =
     (case utf8_decode 0 0 0 0x80 0xBF chunk of
        [] \<Rightarrow> []
      | c # cs \<Rightarrow> if c = 0xFEFF then cs else c # cs)"

text \<open>
  What the generator does with a candidate line: it yields the parsed value, or warns
  \<^verbatim>\<open>invalid json\<close> with the line. \<^verbatim>\<open>JSON.parse\<close> is a parameter, None when it throws.
\<close>

datatype 'v emitted = Yield 'v | Warn "nat list"

definition emit_parts :: "(nat list \<Rightarrow> 'v option) \<Rightarrow> nat list list \<Rightarrow> 'v emitted list" where
  "emit_parts JSON_parse parts =
     map (\<lambda>part. case JSON_parse part of Some v \<Rightarrow> Yield v | None \<Rightarrow> Warn part) parts"

text \<open>The loop of \<^verbatim>\<open>parseJSON\<close> over the chunks the reader has yet to give.\<close>

fun parseJSON_loop ::
  "(nat list \<Rightarrow> 'v option) \<Rightarrow> nat list \<Rightarrow> byte list list \<Rightarrow> 'v emitted list" where
  "parseJSON_loop JSON_parse buffer [] =
     emit_parts JSON_parse (filter (\<lambda>p. p \<noteq> []) (split_js 0x0A buffer))"
| "parseJSON_loop JSON_parse buffer (chunk # chunks) =
     (let buffer1 = buffer @ TextDecoder_decode chunk;
          parts = split_js 0x0A buffer1
      in emit_parts JSON_parse (butlast parts)
         @ parseJSON_loop JSON_parse (if parts = [] then [] else last parts) chunks)"

definition parseJSON :: "(nat list \<Rightarrow> 'v option) \<Rightarrow> byte list list \<Rightarrow> 'v emitted list" where
  "parseJSON JSON_parse chunks = parseJSON_loop JSON_parse [] chunks"

section \<open>A streamed sequence between two pulls\<close>






section \<open>A sample platform and sample servers\<close>

text \<open>
  Concrete values for the examples below: a platform with one file of three bytes in two
  chunks (its digest function returns the SHA-256 of those bytes for every input), a
  configuration, and three transports.
\<close>

definition sample_env :: env where
  "sample_env =
     \<lparr>has_ReadableStream = True,
      readFile_chunks = (\<lambda>p. if p = ''/models/m.bin'' then ([[1, 2], [3]], None)
                             else ([], Some (Error ''ENOENT: no such file or directory''))),
      sha256_hex = (\<lambda>bs. ''039058c6f2c0cb492c533b0a4d14ef77cc0f78abccced5287d84a1a2011cfb81''),
      user_agent = ''ollama-js/0.0.1 (x64 linux Node.js/v20.11.0)'',
      access = (\<lambda>p. p = ''/models/m.bin''),
      homedir = ''/home/u'',
      path_join = (\<lambda>a b. a @ b),
      path_resolve = (\<lambda>d p. if startsWith p ''/'' then p else d @ ''/'' @ p)\<rparr>"

definition sample_config :: config where
  "sample_config = \<lparr>host = ''http://127.0.0.1:11434'', apiKey = Some ''secret''\<rparr>"

text \<open>A server that lacks every blob and accepts every other request.\<close>

definition fetch_blob_missing :: fetch where
  "fetch_blob_missing req =
     (if http_method req = Some ''HEAD''
      then Inr \<lparr>status = 404, statusText = ''Not Found'', content_type = None,
                json_body = None, text_body = Some []\<rparr>
      else Inr \<lparr>status = 201, statusText = ''Created'', content_type = None,
                json_body = None, text_body = Some []\<rparr>)"

text \<open>
  A transport that cannot connect: every request rejects with a network error, worded
  as node-fetch words it.
\<close>

definition fetch_refused :: fetch where
  "fetch_refused req =
     Inl (Error (''request to '' @ url req
                 @ '' failed, reason: connect ECONNREFUSED 127.0.0.1:4040''))"

text \<open>A server that answers every request with 200 and a JSON body of its own.\<close>

definition fetch_ok :: fetch where
  "fetch_ok req =
     Inr \<lparr>status = 200, statusText = ''OK'', content_type = Some ''application/json'',
          json_body = Some (JObj [(''status'', JStr ''deleted by the server'')]),
          text_body = None\<rparr>"



section \<open>Properties of the streamed sequence\<close>

lemma asyncIterator_passes:
  "list_all passes items \<Longrightarrow>
   asyncIterator cb (items @ rest) fin s =
     (case asyncIterator cb rest fin s of (ys, out, s') \<Rightarrow> (items @ ys, out, s'))"
  by (induction items) (auto simp: passes_def has_error_def split: prod.splits option.splits)

lemma produced_split:
  "m \<in> set (produced items) \<Longrightarrow> \<not> passes m \<Longrightarrow>
   \<exists>pre post. items = pre @ m # post \<and> list_all passes pre \<and> produced items = pre @ [m]"
proof (induction items)
  case Nil
  then show ?case by simp
next
  case (Cons a items)
  show ?case
  proof (cases "passes a")
    case True
    with Cons.prems have "m \<in> set (produced items)"
      by (auto simp: passes_def)
    from Cons.IH[OF this Cons.prems(2)] obtain pre post where
      "items = pre @ m # post" "list_all passes pre" "produced items = pre @ [m]"
      by blast
    with True have "a # items = (a # pre) @ m # post \<and> list_all passes (a # pre)
        \<and> produced (a # items) = (a # pre) @ [m]"
      by (auto simp: passes_def)
    then show ?thesis by blast
  next
    case False
    with Cons.prems have "m = a"
      by (auto simp: passes_def split: if_splits)
    with False have "a # items = [] @ m # items \<and> list_all passes []
        \<and> produced (a # items) = [] @ [m]"
      by (auto simp: passes_def)
    then show ?thesis by blast
  qed
qed


lemma indexOf_absent: "x \<notin> set xs \<Longrightarrow> indexOf xs x = - 1"
  by (induction xs) (auto simp: Let_def)

lemma indexOf_present:
  "x \<in> set xs \<Longrightarrow> 0 \<le> indexOf xs x \<and> splice1 xs (nat (indexOf xs x)) = remove1 x xs"
proof (induction xs)
  case Nil
  then show ?case by simp
next
  case (Cons y ys)
  show ?case
  proof (cases "y = x")
    case True
    then show ?thesis by (simp add: splice1_def)
  next
    case False
    with Cons.prems have "x \<in> set ys" by simp
    from Cons.IH[OF this] have ih:
      "0 \<le> indexOf ys x" "splice1 ys (nat (indexOf ys x)) = remove1 x ys"
      by simp_all
    from ih(1) have n: "nat (indexOf ys x + 1) = Suc (nat (indexOf ys x))" by simp
    show ?thesis using False ih n by (simp add: Let_def splice1_def)
  qed
qed

lemma doneCallback_remove1:
  "ongoingStreamedRequests (doneCallback self c) = remove1 self (ongoingStreamedRequests c)"
proof (cases "self \<in> set (ongoingStreamedRequests c)")
  case True
  from indexOf_present[OF this] show ?thesis
    by (simp add: doneCallback_def Let_def)
next
  case False
  then show ?thesis
    by (simp add: doneCallback_def Let_def indexOf_absent remove1_idem)
qed


text \<open>
  C3, as the code has it. A stream of items none of which carries \<^verbatim>\<open>error\<close> or a
  completion signal, and which then ends, has all its items yielded and the iteration
  raises the error "Did not receive done or success response in stream.", the callback
  not invoked. A stream whose items before \<^verbatim>\<open>l\<close> carry neither, and whose item \<^verbatim>\<open>l\<close>
  carries a completion signal and no \<^verbatim>\<open>error\<close>, has the items up to \<^verbatim>\<open>l\<close> yielded, none
  after it, and the iteration returns with the callback applied exactly once to the
  state; the callback of processStreamableRequest removes the first registry entry of
  the iterator.
\<close>

theorem asyncIterator_completion:
  "(list_all passes items \<longrightarrow>
      asyncIterator cb items InnerDone s = (items, Threw no_completion, s))
   \<and> (list_all passes items \<and> \<not> has_error l \<and> completion l \<longrightarrow>
      asyncIterator cb (items @ l # rest) fin s = (items @ [l], Returned, cb s))
   \<and> ongoingStreamedRequests (doneCallback self c) = remove1 self (ongoingStreamedRequests c)"
proof -
  have a: "asyncIterator cb items InnerDone s = (items, Threw no_completion, s)"
    if "list_all passes items"
    using asyncIterator_passes[OF that, of cb "[]" InnerDone s] by simp
  have b: "asyncIterator cb (items @ l # rest) fin s = (items @ [l], Returned, cb s)"
    if "list_all passes items" "\<not> has_error l" "completion l"
    using asyncIterator_passes[OF that(1), of cb "l # rest" fin s] that(2,3)
    by (simp add: has_error_def)
  show ?thesis using a b doneCallback_remove1 by blast
qed

theorem asyncIterator_completion_witness:
  "asyncIterator (doneCallback 7) [[(''response'', JStr ''Hi'')]] InnerDone
       \<lparr>ongoingStreamedRequests = [3, 7], aborted = (\<lambda>r. False)\<rparr>
     = ([[(''response'', JStr ''Hi'')]], Threw no_completion,
        \<lparr>ongoingStreamedRequests = [3, 7], aborted = (\<lambda>r. False)\<rparr>)
   \<and> asyncIterator (doneCallback 7)
       ([[(''response'', JStr ''Hi'')]] @ [(''done'', JBool True)] # []) InnerDone
       \<lparr>ongoingStreamedRequests = [3, 7], aborted = (\<lambda>r. False)\<rparr>
     = ([[(''response'', JStr ''Hi'')]] @ [[(''done'', JBool True)]], Returned,
        doneCallback 7 \<lparr>ongoingStreamedRequests = [3, 7], aborted = (\<lambda>r. False)\<rparr>)
   \<and> ongoingStreamedRequests
         (doneCallback 7 \<lparr>ongoingStreamedRequests = [3, 7], aborted = (\<lambda>r. False)\<rparr>) = [3]"
proof -
  have p: "list_all passes [[(''response'', JStr ''Hi'')]]"
    by (simp add: passes_def has_error_def completion_def)
  have l: "\<not> has_error [(''done'', JBool True)] \<and> completion [(''done'', JBool True)]"
    by (simp add: has_error_def completion_def)
  show ?thesis
    using p l
      asyncIterator_completion[of "[[(''response'', JStr ''Hi'')]]" "doneCallback 7"
        "\<lparr>ongoingStreamedRequests = [3, 7], aborted = (\<lambda>r. False)\<rparr>"
        "[(''done'', JBool True)]" "[]" InnerDone 7
        "\<lparr>ongoingStreamedRequests = [3, 7], aborted = (\<lambda>r. False)\<rparr>"]
    by (simp del: asyncIterator.simps)
qed

text \<open>
  C3 as stated fails. The one-item stream \<^verbatim>\<open>{"error":"boom"}\<close> ends without an item whose
  \<^verbatim>\<open>done\<close> is set or whose \<^verbatim>\<open>status\<close> is \<^verbatim>\<open>success\<close>, and the iteration raises the
  server's message, not the missing-completion error. The one-item stream
  \<^verbatim>\<open>{"error":"boom","done":true}\<close> has a last item with \<^verbatim>\<open>done\<close> set, and the iteration
  raises without yielding it and without the callback.
\<close>

theorem asyncIterator_completion_counterexample:
  "list_all (\<lambda>m. \<not> completion m) [[(''error'', JStr ''boom'')]]
   \<and> asyncIterator Suc [[(''error'', JStr ''boom'')]] InnerDone 0
       = ([], Threw (Error ''boom''), 0)
   \<and> Error ''boom'' \<noteq> no_completion
   \<and> completion [(''error'', JStr ''boom''), (''done'', JBool True)]
   \<and> asyncIterator Suc [[(''error'', JStr ''boom''), (''done'', JBool True)]] InnerDone 0
       = ([], Threw (Error ''boom''), 0)"
  by (simp add: completion_def no_completion_def)

text \<open>
  C4. If an item carrying \<^verbatim>\<open>error\<close> is among the items the decoder produces for the
  loop, the iteration raises an Error whose message is that field (the string itself
  when it is one), the items yielded are exactly those produced before it, and it is the
  last item produced: nothing is yielded after it.
\<close>

theorem asyncIterator_error_item:
  "m \<in> set (produced items) \<Longrightarrow> map_of m ''error'' = Some v \<Longrightarrow>
   asyncIterator cb items fin s = (butlast (produced items), Threw (Error (js_String v)), s)
   \<and> last (produced items) = m \<and> (\<forall>t. js_String (JStr t) = t)"
proof -
  assume a: "m \<in> set (produced items)" and e: "map_of m ''error'' = Some v"
  from e have "\<not> passes m"
    by (simp add: passes_def has_error_def)
  from produced_split[OF a this] obtain pre post where
    p: "items = pre @ m # post" "list_all passes pre" "produced items = pre @ [m]"
    by blast
  show ?thesis using p e by (simp add: asyncIterator_passes)
qed

theorem asyncIterator_error_item_witness:
  "[(''error'', JStr ''model not found'')]
     \<in> set (produced [[(''response'', JStr ''Hi'')], [(''error'', JStr ''model not found'')],
                      [(''done'', JBool True)]])
   \<and> asyncIterator Suc [[(''response'', JStr ''Hi'')], [(''error'', JStr ''model not found'')],
                      [(''done'', JBool True)]] InnerDone 0
     = ([[(''response'', JStr ''Hi'')]], Threw (Error ''model not found''), 0)"
proof -
  have a: "[(''error'', JStr ''model not found'')]
     \<in> set (produced [[(''response'', JStr ''Hi'')], [(''error'', JStr ''model not found'')],
                      [(''done'', JBool True)]])"
    by (simp add: has_error_def completion_def)
  have e: "map_of [(''error'', JStr ''model not found'')] ''error''
     = Some (JStr ''model not found'')"
    by simp
  have b: "butlast (produced [[(''response'', JStr ''Hi'')],
       [(''error'', JStr ''model not found'')], [(''done'', JBool True)]])
     = [[(''response'', JStr ''Hi'')]]"
    by (simp add: has_error_def completion_def)
  show ?thesis
    using a b asyncIterator_error_item[OF a e, of Suc InnerDone 0]
    by (simp del: asyncIterator.simps produced.simps)
qed






section \<open>Properties of the transport layer and of the blob upload\<close>

lemma show_nat_404: "show_nat 404 = ''404''"
  by (simp add: show_nat.simps)

lemma createBlob_unfold:
  assumes "has_ReadableStream env" "readFile_chunks env path = (ds, None)"
  shows "createBlob env cfg fetch path =
     (let digest = ''sha256:'' @ sha256_hex env (concat ds)
      in case head env fetch (host cfg @ ''/api/blobs/'' @ digest)
                (Some [''headers'' \<mapsto> HObject [''Authorization'' \<mapsto> HString (bearer cfg)]]) of
           (Inr response, sent) \<Rightarrow> (Some (Inr digest), sent)
         | (Inl e, sent) \<Rightarrow>
             if instanceof_Error e \<and> includes_js (message e) ''404'' then
               (case post env fetch (host cfg @ ''/api/blobs/'' @ digest)
                       (Some (Stream \<lparr>enqueued = [], ending = Open\<rparr>))
                       (Some \<lparr>opt_signal = None,
                              opt_headers = Some
                                [''Authorization'' \<mapsto> HString (bearer cfg),
                                 ''Content-Type'' \<mapsto> HString ''application/octet-stream'']\<rparr>) of
                  (Inl e', sent') \<Rightarrow> (Some (Inl e'), sent @ sent')
                | (Inr response', sent') \<Rightarrow> (Some (Inr digest), sent @ sent'))
             else (Some (Inl e), sent))"
proof -
  obtain r sent where h:
    "head env fetch (host cfg @ ''/api/blobs/'' @ ''sha256:'' @ sha256_hex env (concat ds))
       (Some [''headers'' \<mapsto> HObject [''Authorization'' \<mapsto> HString (bearer cfg)]]) = (r, sent)"
    by (cases "head env fetch (host cfg @ ''/api/blobs/'' @ ''sha256:'' @ sha256_hex env (concat ds))
       (Some [''headers'' \<mapsto> HObject [''Authorization'' \<mapsto> HString (bearer cfg)]])")
  show ?thesis
  proof (cases r)
    case (Inl e)
    show ?thesis
    proof (cases "instanceof_Error e \<and> includes_js (message e) ''404''")
      case True
      with assms h Inl show ?thesis
        by (simp add: createBlob_def createReadStream_def listeners_def Let_def)
    next
      case False
      with assms h Inl show ?thesis
        by (auto simp add: createBlob_def createReadStream_def listeners_def Let_def)
    qed
  next
    case (Inr response)
    with assms h show ?thesis
      by (simp add: createBlob_def createReadStream_def listeners_def Let_def)
  qed
qed

lemma head_sent:
  "\<exists>probe. snd (head env fetch u hdrs) = [probe] \<and> http_method probe = Some ''HEAD'' \<and> url probe = u
     \<and> headers probe = defaultHeaders env ++ (case hdrs of None \<Rightarrow> Map.empty | Some h \<Rightarrow> h)
     \<and> body probe = None
     \<and> fst (head env fetch u hdrs) = fst (checked (fetch probe, [probe]))"
  by (simp add: head_def fetchWithHeaders_def checked_def Let_def split: sum.splits)

lemma post_sent:
  "\<exists>upload. snd (post env fetch u (Some d) (Some opts)) = [upload] \<and> http_method upload = Some ''POST''
     \<and> url upload = u
     \<and> headers upload = defaultHeaders env ++ (case opt_headers opts of None \<Rightarrow> Map.empty | Some h \<Rightarrow> h)
     \<and> body upload = Some (if isRecord d then JSON_stringify d else Unchanged d)
     \<and> fst (post env fetch u (Some d) (Some opts)) = fst (checked (fetch upload, [upload]))"
  by (simp add: post_def fetchWithHeaders_def checked_def Let_def split: sum.splits)

lemma checkOk_bodiless_404:
  "status r = 404 \<Longrightarrow> json_body r = None \<Longrightarrow> text_body r = Some [] \<Longrightarrow>
   checkOk r = Inl (ResponseError (''Error 404: '' @ statusText r) 404)"
  by (simp add: checkOk_def ok_def Let_def show_nat_404)

lemma del_sent:
  "\<exists>req. snd (del env fetch u data hdrs) = [req]
     \<and> fst (del env fetch u data hdrs) = fst (checked (fetch req, [req]))"
  by (simp add: del_def fetchWithHeaders_def checked_def Let_def split: sum.splits)

lemma checked_ok: "fetch req = Inr r \<Longrightarrow> ok r \<Longrightarrow> fst (checked (fetch req, [req])) = Inr r"
  by (simp add: checked_def checkOk_def)

text \<open>
  The other helpers hand the headers they are given to the transport: a request made by
  \<^verbatim>\<open>get\<close>, \<^verbatim>\<open>del\<close> or \<^verbatim>\<open>post\<close> with an Authorization header carries it.
\<close>

lemma siblings_send_authorization:
  "(\<exists>req. snd (get env fetch u (Some [''Authorization'' \<mapsto> HString t])) = [req]
        \<and> headers req ''Authorization'' = Some (HString t))
   \<and> (\<exists>req. snd (del env fetch u data (Some [''Authorization'' \<mapsto> HString t])) = [req]
        \<and> headers req ''Authorization'' = Some (HString t))
   \<and> (\<exists>req. snd (post env fetch u data'
                 (Some \<lparr>opt_signal = sig,
                        opt_headers = Some [''Authorization'' \<mapsto> HString t]\<rparr>)) = [req]
        \<and> headers req ''Authorization'' = Some (HString t))"
  by (simp add: get_def del_def post_def fetchWithHeaders_def checked_def Let_def map_add_def
        split: sum.splits)

lemmas sample_defs =
  createBlob_def createReadStream_def listeners_def Let_def sample_env_def sample_config_def
  head_def post_def del_def checked_def fetchWithHeaders_def checkOk_def ok_def show_nat.simps
  bearer_def defaultHeaders_def map_add_def

text \<open>
  C2: what the code does when the probe reports 404 (a response with status 404 and no
  body, as a HEAD request gets). Two requests are sent, the probe and a POST with
  content type application/octet-stream; the body of the POST is the text
  \<^verbatim>\<open>JSON.stringify\<close> gives for the ReadableStream, the empty object, whatever the file
  holds; and the listeners attached to the file stream for the upload, after the digest
  was computed from it, receive no chunk and no end.
\<close>

theorem createBlob_upload_body:
  "has_ReadableStream env \<Longrightarrow> readFile_chunks env path = (ds, None) \<Longrightarrow>
   (\<forall>req. http_method req = Some ''HEAD'' \<longrightarrow> fetch req = Inr r) \<Longrightarrow>
   status r = 404 \<Longrightarrow> json_body r = None \<Longrightarrow> text_body r = Some [] \<Longrightarrow>
   \<exists>probe upload.
      snd (createBlob env cfg fetch path) = [probe, upload]
      \<and> http_method upload = Some ''POST''
      \<and> headers upload ''Content-Type'' = Some (HString ''application/octet-stream'')
      \<and> body upload = Some (Stringified (JObj []))
      \<and> fst (listeners (snd (listeners (createReadStream env path)))) = ([], None)"
proof -
  assume a: "has_ReadableStream env" "readFile_chunks env path = (ds, None)"
    and f: "\<forall>req. http_method req = Some ''HEAD'' \<longrightarrow> fetch req = Inr r"
    and r: "status r = 404" "json_body r = None" "text_body r = Some []"
  let ?d = "''sha256:'' @ sha256_hex env (concat ds)"
  let ?u = "host cfg @ ''/api/blobs/'' @ ?d"
  let ?h = "Some [''headers'' \<mapsto> HObject [''Authorization'' \<mapsto> HString (bearer cfg)]]"
  let ?o = "Some \<lparr>opt_signal = None,
                   opt_headers = Some [''Authorization'' \<mapsto> HString (bearer cfg),
                     ''Content-Type'' \<mapsto> HString ''application/octet-stream'']\<rparr>"
  let ?s = "Stream \<lparr>enqueued = [], ending = Open\<rparr>"
  obtain probe where p: "snd (head env fetch ?u ?h) = [probe]" "http_method probe = Some ''HEAD''"
    "fst (head env fetch ?u ?h) = fst (checked (fetch probe, [probe]))"
    using head_sent[of env fetch ?u ?h] by blast
  obtain upload where q: "snd (post env fetch ?u (Some ?s) ?o) = [upload]"
    "http_method upload = Some ''POST''"
    "headers upload = defaultHeaders env ++ (case opt_headers (the ?o) of None \<Rightarrow> Map.empty | Some h \<Rightarrow> h)"
    "body upload = Some (if isRecord ?s then JSON_stringify ?s else Unchanged ?s)"
    using post_sent[of env fetch ?u ?s "the ?o"] by auto
  from f p(2) have "fetch probe = Inr r" by simp
  then have e: "fst (head env fetch ?u ?h) = Inl (ResponseError (''Error 404: '' @ statusText r) 404)"
    using p(3) checkOk_bodiless_404[OF r] by (simp add: checked_def)
  have hd: "head env fetch ?u ?h = (Inl (ResponseError (''Error 404: '' @ statusText r) 404), [probe])"
    using p(1) e by (cases "head env fetch ?u ?h") simp
  have "snd (createBlob env cfg fetch path) = [probe, upload]"
    using hd q(1)
    by (cases "post env fetch ?u (Some ?s) ?o")
       (auto simp add: createBlob_unfold[OF a] Let_def split: sum.split)
  moreover have "headers upload ''Content-Type'' = Some (HString ''application/octet-stream'')"
    by (simp add: q(3) map_add_def)
  moreover have "body upload = Some (Stringified (JObj []))"
    by (simp add: q(4))
  moreover have "fst (listeners (snd (listeners (createReadStream env path)))) = ([], None)"
    by (simp add: listeners_def createReadStream_def)
  ultimately show ?thesis using q(2) by blast
qed

theorem createBlob_upload_body_witness:
  "has_ReadableStream sample_env
   \<and> readFile_chunks sample_env ''/models/m.bin'' = ([[1, 2], [3]], None)
   \<and> (\<exists>probe upload.
        snd (createBlob sample_env sample_config fetch_blob_missing ''/models/m.bin'')
          = [probe, upload]
        \<and> http_method upload = Some ''POST''
        \<and> headers upload ''Content-Type'' = Some (HString ''application/octet-stream'')
        \<and> body upload = Some (Stringified (JObj []))
        \<and> fst (listeners (snd (listeners (createReadStream sample_env ''/models/m.bin''))))
            = ([], None))
   \<and> fst (createBlob sample_env sample_config fetch_blob_missing ''/models/m.bin'')
       = Some (Inr ''sha256:039058c6f2c0cb492c533b0a4d14ef77cc0f78abccced5287d84a1a2011cfb81'')"
proof -
  let ?r = "\<lparr>status = 404, statusText = ''Not Found'', content_type = None,
             json_body = None, text_body = Some []\<rparr>"
  have a: "has_ReadableStream sample_env"
    by (simp add: sample_env_def)
  have b: "readFile_chunks sample_env ''/models/m.bin'' = ([[1, 2], [3]], None)"
    by (simp add: sample_env_def)
  have f: "\<forall>req. http_method req = Some ''HEAD'' \<longrightarrow> fetch_blob_missing req = Inr ?r"
    by (simp add: fetch_blob_missing_def)
  have d: "fst (createBlob sample_env sample_config fetch_blob_missing ''/models/m.bin'')
       = Some (Inr ''sha256:039058c6f2c0cb492c533b0a4d14ef77cc0f78abccced5287d84a1a2011cfb81'')"
    by (simp add: sample_defs fetch_blob_missing_def)
  show ?thesis
    using a b d createBlob_upload_body[OF a b f, of sample_config] by simp
qed

text \<open>
  What decides the upload. With the file readable, the probe is one HEAD request. When it
  succeeds nothing else is sent and the digest is returned. When it fails with an Error
  whose message contains the text 404, exactly one more request is sent, a POST to the
  same address; every other failure is returned unchanged with nothing else sent. A
  response with status 404 and no body fails with the message
  \<^verbatim>\<open>Error 404: <status text>\<close>, which contains 404.
\<close>

theorem createBlob_upload_decision:
  "has_ReadableStream env \<Longrightarrow> readFile_chunks env path = (ds, None) \<Longrightarrow>
   \<exists>probe.
      http_method probe = Some ''HEAD''
      \<and> url probe = host cfg @ ''/api/blobs/sha256:'' @ sha256_hex env (concat ds)
      \<and> (case fst (checked (fetch probe, [probe])) of
            Inr response \<Rightarrow>
              createBlob env cfg fetch path
                = (Some (Inr (''sha256:'' @ sha256_hex env (concat ds))), [probe])
          | Inl e \<Rightarrow>
              if instanceof_Error e \<and> includes_js (message e) ''404''
              then (\<exists>upload. snd (createBlob env cfg fetch path) = [probe, upload]
                      \<and> http_method upload = Some ''POST'' \<and> url upload = url probe)
              else createBlob env cfg fetch path = (Some (Inl e), [probe]))
      \<and> (\<forall>r. fetch probe = Inr r \<and> status r = 404 \<and> json_body r = None \<and> text_body r = Some []
            \<longrightarrow> fst (checked (fetch probe, [probe]))
                  = Inl (ResponseError (''Error 404: '' @ statusText r) 404)
                \<and> includes_js (''Error 404: '' @ statusText r) ''404'')"
proof -
  assume a: "has_ReadableStream env" "readFile_chunks env path = (ds, None)"
  let ?d = "''sha256:'' @ sha256_hex env (concat ds)"
  let ?u = "host cfg @ ''/api/blobs/'' @ ?d"
  let ?h = "Some [''headers'' \<mapsto> HObject [''Authorization'' \<mapsto> HString (bearer cfg)]]"
  let ?o = "Some \<lparr>opt_signal = None,
                   opt_headers = Some [''Authorization'' \<mapsto> HString (bearer cfg),
                     ''Content-Type'' \<mapsto> HString ''application/octet-stream'']\<rparr>"
  let ?s = "Stream \<lparr>enqueued = [], ending = Open\<rparr>"
  obtain probe where p: "snd (head env fetch ?u ?h) = [probe]" "http_method probe = Some ''HEAD''"
    "url probe = ?u" "fst (head env fetch ?u ?h) = fst (checked (fetch probe, [probe]))"
    using head_sent[of env fetch ?u ?h] by blast
  obtain upload where q: "snd (post env fetch ?u (Some ?s) ?o) = [upload]"
    "http_method upload = Some ''POST''" "url upload = ?u"
    using post_sent[of env fetch ?u ?s] by blast
  have hd: "head env fetch ?u ?h = (fst (checked (fetch probe, [probe])), [probe])"
    using p(1,4) by (cases "head env fetch ?u ?h") simp
  have main: "case fst (checked (fetch probe, [probe])) of
            Inr response \<Rightarrow>
              createBlob env cfg fetch path = (Some (Inr ?d), [probe])
          | Inl e \<Rightarrow>
              if instanceof_Error e \<and> includes_js (message e) ''404''
              then (\<exists>upload. snd (createBlob env cfg fetch path) = [probe, upload]
                      \<and> http_method upload = Some ''POST'' \<and> url upload = url probe)
              else createBlob env cfg fetch path = (Some (Inl e), [probe])"
  proof (cases "fst (checked (fetch probe, [probe]))")
    case (Inl e)
    show ?thesis
    proof (cases "instanceof_Error e \<and> includes_js (message e) ''404''")
      case True
      have "snd (createBlob env cfg fetch path) = [probe, upload]"
        using hd Inl True q(1)
        by (cases "post env fetch ?u (Some ?s) ?o")
           (auto simp add: createBlob_unfold[OF a] Let_def split: sum.split)
      with Inl True q(2,3) p(3) show ?thesis by auto
    next
      case False
      with hd Inl show ?thesis
        by (auto simp add: createBlob_unfold[OF a] Let_def)
    qed
  next
    case (Inr response)
    with hd show ?thesis
      by (simp add: createBlob_unfold[OF a] Let_def)
  qed
  have bodiless: "fst (checked (fetch probe, [probe]))
                  = Inl (ResponseError (''Error 404: '' @ statusText r) 404)
                \<and> includes_js (''Error 404: '' @ statusText r) ''404''"
    if "fetch probe = Inr r" "status r = 404" "json_body r = None" "text_body r = Some []" for r
    using that checkOk_bodiless_404[of r] by (simp add: checked_def)
  show ?thesis
    using p(2,3) main bodiless by (intro exI[of _ probe]) auto
qed

theorem createBlob_upload_decision_witness:
  "has_ReadableStream sample_env
   \<and> readFile_chunks sample_env ''/models/m.bin'' = ([[1, 2], [3]], None)
   \<and> (\<exists>probe upload.
        snd (createBlob sample_env sample_config fetch_blob_missing ''/models/m.bin'')
          = [probe, upload]
        \<and> http_method probe = Some ''HEAD'' \<and> http_method upload = Some ''POST''
        \<and> url upload = url probe)"
proof -
  let ?r = "\<lparr>status = 404, statusText = ''Not Found'', content_type = None,
             json_body = None, text_body = Some []\<rparr>"
  have a: "has_ReadableStream sample_env"
    by (simp add: sample_env_def)
  have b: "readFile_chunks sample_env ''/models/m.bin'' = ([[1, 2], [3]], None)"
    by (simp add: sample_env_def)
  from createBlob_upload_decision[OF a b, of sample_config fetch_blob_missing]
  obtain probe where p: "http_method probe = Some ''HEAD''"
    and c: "case fst (checked (fetch_blob_missing probe, [probe])) of
            Inr response \<Rightarrow>
              createBlob sample_env sample_config fetch_blob_missing ''/models/m.bin''
                = (Some (Inr (''sha256:'' @ sha256_hex sample_env (concat [[1, 2], [3]]))), [probe])
          | Inl e \<Rightarrow>
              if instanceof_Error e \<and> includes_js (message e) ''404''
              then (\<exists>upload. snd (createBlob sample_env sample_config fetch_blob_missing
                                   ''/models/m.bin'') = [probe, upload]
                      \<and> http_method upload = Some ''POST'' \<and> url upload = url probe)
              else createBlob sample_env sample_config fetch_blob_missing ''/models/m.bin''
                     = (Some (Inl e), [probe])"
    and n: "\<forall>r. fetch_blob_missing probe = Inr r \<and> status r = 404 \<and> json_body r = None
               \<and> text_body r = Some []
            \<longrightarrow> fst (checked (fetch_blob_missing probe, [probe]))
                  = Inl (ResponseError (''Error 404: '' @ statusText r) 404)
                \<and> includes_js (''Error 404: '' @ statusText r) ''404''"
    by blast
  from p have "fetch_blob_missing probe = Inr ?r"
    by (simp add: fetch_blob_missing_def)
  with n have "fst (checked (fetch_blob_missing probe, [probe]))
       = Inl (ResponseError (''Error 404: '' @ statusText ?r) 404)"
    by simp
  with c have "\<exists>upload. snd (createBlob sample_env sample_config fetch_blob_missing
                               ''/models/m.bin'') = [probe, upload]
                  \<and> http_method upload = Some ''POST'' \<and> url upload = url probe"
    by simp
  with a b p show ?thesis by blast
qed

text \<open>
  C5: what the code does when the probe fails with a network error whose message happens
  to contain 404. No response arrives, so no HTTP status: the transport rejects with a
  refused connection to port 4040. The failure is not handed back to the caller as it
  is; a POST to the same address follows the HEAD request.
\<close>

theorem createBlob_upload_on_network_error:
  "fst (head sample_env fetch_refused
          ''http://127.0.0.1:4040/api/blobs/sha256:039058c6f2c0cb492c533b0a4d14ef77cc0f78abccced5287d84a1a2011cfb81''
          None)
     = Inl (Error ''request to http://127.0.0.1:4040/api/blobs/sha256:039058c6f2c0cb492c533b0a4d14ef77cc0f78abccced5287d84a1a2011cfb81 failed, reason: connect ECONNREFUSED 127.0.0.1:4040'')
   \<and> map (\<lambda>req. (http_method req, url req))
        (snd (createBlob sample_env (sample_config\<lparr>host := ''http://127.0.0.1:4040''\<rparr>)
                fetch_refused ''/models/m.bin''))
     = [(Some ''HEAD'',
         ''http://127.0.0.1:4040/api/blobs/sha256:039058c6f2c0cb492c533b0a4d14ef77cc0f78abccced5287d84a1a2011cfb81''),
        (Some ''POST'',
         ''http://127.0.0.1:4040/api/blobs/sha256:039058c6f2c0cb492c533b0a4d14ef77cc0f78abccced5287d84a1a2011cfb81'')]"
  by (simp add: sample_defs fetch_refused_def)

text \<open>
  C9: what the code sends as the existence probe. The HEAD request has no Authorization
  header; the bearer token sits one level down, inside an object stored under a header
  named \<^verbatim>\<open>headers\<close>.
\<close>

theorem createBlob_probe_headers:
  "has_ReadableStream env \<Longrightarrow> readFile_chunks env path = (ds, None) \<Longrightarrow>
   \<exists>probe rest.
      snd (createBlob env cfg fetch path) = probe # rest
      \<and> http_method probe = Some ''HEAD''
      \<and> url probe = host cfg @ ''/api/blobs/sha256:'' @ sha256_hex env (concat ds)
      \<and> headers probe ''Authorization'' = None
      \<and> (\<exists>h. headers probe ''headers'' = Some (HObject h)
             \<and> h ''Authorization'' = Some (HString (bearer cfg)))"
proof -
  assume a: "has_ReadableStream env" "readFile_chunks env path = (ds, None)"
  let ?u = "host cfg @ ''/api/blobs/'' @ ''sha256:'' @ sha256_hex env (concat ds)"
  let ?h = "Some [''headers'' \<mapsto> HObject [''Authorization'' \<mapsto> HString (bearer cfg)]]"
  obtain probe where p: "snd (head env fetch ?u ?h) = [probe]" "http_method probe = Some ''HEAD''"
    "url probe = ?u" "headers probe = defaultHeaders env ++ (case ?h of None \<Rightarrow> Map.empty | Some h \<Rightarrow> h)"
    using head_sent[of env fetch ?u ?h] by blast
  obtain r sent where h: "head env fetch ?u ?h = (r, sent)"
    by (cases "head env fetch ?u ?h")
  with p(1) have s: "sent = [probe]" by simp
  have "\<exists>rest. snd (createBlob env cfg fetch path) = probe # rest"
    using h s by (simp add: createBlob_unfold[OF a] Let_def split: sum.split prod.split)
  moreover have "headers probe ''Authorization'' = None"
    by (simp add: p(4) defaultHeaders_def map_add_def)
  moreover have "\<exists>h. headers probe ''headers'' = Some (HObject h)
             \<and> h ''Authorization'' = Some (HString (bearer cfg))"
    by (simp add: p(4) defaultHeaders_def map_add_def)
  ultimately show ?thesis using p(2,3) by auto
qed

theorem createBlob_probe_headers_witness:
  "has_ReadableStream sample_env
   \<and> readFile_chunks sample_env ''/models/m.bin'' = ([[1, 2], [3]], None)
   \<and> (\<exists>probe rest.
        snd (createBlob sample_env sample_config fetch_blob_missing ''/models/m.bin'')
          = probe # rest
        \<and> http_method probe = Some ''HEAD''
        \<and> url probe = ''http://127.0.0.1:11434/api/blobs/sha256:039058c6f2c0cb492c533b0a4d14ef77cc0f78abccced5287d84a1a2011cfb81''
        \<and> headers probe ''Authorization'' = None
        \<and> (\<exists>h. headers probe ''headers'' = Some (HObject h)
               \<and> h ''Authorization'' = Some (HString ''Bearer secret'')))"
proof -
  have a: "has_ReadableStream sample_env"
    by (simp add: sample_env_def)
  have b: "readFile_chunks sample_env ''/models/m.bin'' = ([[1, 2], [3]], None)"
    by (simp add: sample_env_def)
  have c: "host sample_config @ ''/api/blobs/sha256:'' @ sha256_hex sample_env (concat [[1, 2], [3]])
     = ''http://127.0.0.1:11434/api/blobs/sha256:039058c6f2c0cb492c533b0a4d14ef77cc0f78abccced5287d84a1a2011cfb81''"
    by (simp add: sample_env_def sample_config_def)
  have d: "bearer sample_config = ''Bearer secret''"
    by (simp add: bearer_def sample_config_def)
  show ?thesis
    using a b createBlob_probe_headers[OF a b, of sample_config fetch_blob_missing]
    unfolding c d by blast
qed

text \<open>
  C10. When the one request a delete or a copy sends is answered with an ok response
  (status 200 to 299), the call returns the value \<^verbatim>\<open>{ status: 'success' }\<close>, whatever the
  response holds.
\<close>

theorem delete_copy_constant:
  "((\<forall>req \<in> set (snd (delete env cfg fetch model)). \<exists>r. fetch req = Inr r \<and> ok r)
     \<longrightarrow> fst (delete env cfg fetch model) = Inr [(''status'', JStr ''success'')])
   \<and> ((\<forall>req \<in> set (snd (copy env cfg fetch request)). \<exists>r. fetch req = Inr r \<and> ok r)
     \<longrightarrow> fst (copy env cfg fetch request) = Inr [(''status'', JStr ''success'')])"
proof
  let ?u = "host cfg @ ''/api/delete''"
  let ?d = "Some [(''name'', model)]"
  let ?h = "Some [''Authorization'' \<mapsto> HString (bearer cfg)]"
  obtain req where d: "snd (del env fetch ?u ?d ?h) = [req]"
     "fst (del env fetch ?u ?d ?h) = fst (checked (fetch req, [req]))"
    using del_sent[of env fetch ?u ?d ?h] by blast
  have s: "snd (delete env cfg fetch model) = [req]"
    using d(1) by (cases "del env fetch ?u ?d ?h") (simp add: delete_def split: sum.split)
  show "(\<forall>req \<in> set (snd (delete env cfg fetch model)). \<exists>r. fetch req = Inr r \<and> ok r)
     \<longrightarrow> fst (delete env cfg fetch model) = Inr [(''status'', JStr ''success'')]"
  proof
    assume "\<forall>req \<in> set (snd (delete env cfg fetch model)). \<exists>r. fetch req = Inr r \<and> ok r"
    with s obtain r where "fetch req = Inr r" "ok r" by auto
    with checked_ok[of fetch req r] d(2)
    show "fst (delete env cfg fetch model) = Inr [(''status'', JStr ''success'')]"
      by (cases "del env fetch ?u ?d ?h") (simp add: delete_def success_def)
  qed
next
  let ?u = "host cfg @ ''/api/copy''"
  let ?o = "\<lparr>opt_signal = None,
             opt_headers = Some [''Authorization'' \<mapsto> HString (bearer cfg)]\<rparr>"
  obtain req where d: "snd (post env fetch ?u (Some (Record request)) (Some ?o)) = [req]"
     "fst (post env fetch ?u (Some (Record request)) (Some ?o))
        = fst (checked (fetch req, [req]))"
    using post_sent[of env fetch ?u "Record request" ?o] by blast
  have s: "snd (copy env cfg fetch request) = [req]"
    using d(1)
    by (cases "post env fetch ?u (Some (Record request)) (Some ?o)")
       (simp add: copy_def split: sum.split)
  show "(\<forall>req \<in> set (snd (copy env cfg fetch request)). \<exists>r. fetch req = Inr r \<and> ok r)
     \<longrightarrow> fst (copy env cfg fetch request) = Inr [(''status'', JStr ''success'')]"
  proof
    assume "\<forall>req \<in> set (snd (copy env cfg fetch request)). \<exists>r. fetch req = Inr r \<and> ok r"
    with s obtain r where "fetch req = Inr r" "ok r" by auto
    with checked_ok[of fetch req r] d(2)
    show "fst (copy env cfg fetch request) = Inr [(''status'', JStr ''success'')]"
      by (cases "post env fetch ?u (Some (Record request)) (Some ?o)")
         (simp add: copy_def success_def)
  qed
qed

theorem delete_copy_constant_witness:
  "fst (delete sample_env sample_config fetch_ok (JStr ''llama3''))
     = Inr [(''status'', JStr ''success'')]
   \<and> fst (copy sample_env sample_config fetch_ok
            [(''source'', JStr ''llama3''), (''destination'', JStr ''backup'')])
     = Inr [(''status'', JStr ''success'')]"
proof -
  have k: "\<exists>r. fetch_ok req = Inr r \<and> ok r" for req
    by (simp add: fetch_ok_def ok_def)
  show ?thesis
    using k delete_copy_constant[of sample_env sample_config fetch_ok "JStr ''llama3''"
        "[(''source'', JStr ''llama3''), (''destination'', JStr ''backup'')]"]
    by blast
qed

section \<open>Properties of splitting and joining\<close>

lemma split_js_nonempty: "split_js sep s \<noteq> []"
  by (induction s) (auto split: list.splits)

lemma split_js_no_sep: "sep \<notin> set s \<Longrightarrow> split_js sep s = [s]"
  by (induction s) auto

lemma last_split_js_no_sep: "sep \<notin> set (last (split_js sep s))"
  by (induction s) (auto split: list.splits simp: split_js_nonempty)

lemma split_js_append:
  "split_js sep (a @ b)
     = butlast (split_js sep a) @ split_js sep (last (split_js sep a) @ b)"
proof (induction a)
  case Nil
  then show ?case by simp
next
  case (Cons c cs)
  obtain p ps where s: "split_js sep cs = p # ps"
    using split_js_nonempty[of sep cs] by (cases "split_js sep cs") auto
  show ?case
  proof (cases "c = sep")
    case True
    with Cons s show ?thesis by simp
  next
    case False
    show ?thesis
    proof (cases ps)
      case Nil
      with Cons s False show ?thesis by simp
    next
      case (Cons q qs)
      with Cons.IH s False show ?thesis by simp
    qed
  qed
qed

lemma join_split_js: "join [sep] (split_js sep s) = s"
proof (induction s)
  case Nil
  then show ?case by simp
next
  case (Cons c cs)
  obtain p ps where s: "split_js sep cs = p # ps"
    using split_js_nonempty[of sep cs] by (cases "split_js sep cs") auto
  show ?case
  proof (cases "c = sep")
    case True
    with Cons s show ?thesis by simp
  next
    case False
    with Cons s show ?thesis by (cases ps) auto
  qed
qed

section \<open>Properties of the model-definition rewriter\<close>

text \<open>
  A model definition all of whose lines are of the kind above comes out of the rewriter
  as it went in: the same lines in the same order, blank lines included.
\<close>

lemma parseModelfile_loop_kept:
  "list_all (kept env mfDir) lines \<Longrightarrow>
   parseModelfile_loop env cfg fetch mfDir out lines = Some (Inr (out @ lines))"
proof (induction lines arbitrary: out)
  case Nil
  then show ?case by simp
next
  case (Cons line lines)
  from Cons.prems have k: "kept env mfDir line" and r: "list_all (kept env mfDir) lines"
    by simp_all
  have ih: "parseModelfile_loop env cfg fetch mfDir (out @ [line]) lines
      = Some (Inr (out @ line # lines))"
    using Cons.IH[OF r, of "out @ [line]"] by simp
  obtain command rest where s: "split_js (CHR '' '') line = command # rest"
    using split_js_nonempty[of "CHR '' ''" line] by (cases "split_js (CHR '' '') line") auto
  show ?case
  proof (cases "toUpperCase command \<in> set [''FROM'', ''ADAPTER'']")
    case False
    with s ih show ?thesis by (cases rest) simp_all
  next
    case True
    with k s obtain args where a: "rest = [args]"
      "\<not> fileExists env (resolvePath env (trim args) mfDir)"
      by (auto simp: kept_def split: list.splits)
    from join_split_js[of "CHR '' ''" line] s a(1) have "command @ '' '' @ args = line"
      by simp
    with True s a ih show ?thesis by simp
  qed
qed

lemma parseModelfile_kept:
  "list_all (kept env mfDir) (split_js (CHR 0x0A) modelfile) \<Longrightarrow>
   parseModelfile env cfg fetch modelfile mfDir = Some (Inr modelfile)"
  using parseModelfile_loop_kept[of env mfDir "split_js (CHR 0x0A) modelfile" cfg fetch "[]"]
  by (simp add: parseModelfile_def join_split_js)

text \<open>
  C6: what the code does with a directive whose argument holds a space, and with a
  directive that has no argument. When the first word after the keyword does not resolve
  to an existing file, the line \<^verbatim>\<open>FROM ./base model.gguf\<close> comes out as
  \<^verbatim>\<open>FROM ./base\<close>: the rest of the line is lost. The line \<^verbatim>\<open>FROM\<close> alone makes the
  rewriter throw a TypeError.
\<close>

theorem parseModelfile_loses_text:
  "(\<not> fileExists env (resolvePath env ''./base'' mfDir) \<longrightarrow>
      parseModelfile env cfg fetch ''FROM ./base model.gguf'' mfDir = Some (Inr ''FROM ./base''))
   \<and> parseModelfile env cfg fetch ''FROM'' mfDir
       = Some (Inl (TypeError ''Cannot read properties of undefined''))"
  by (simp add: parseModelfile_def toUpperCase_def to_upper_def trim_def is_space_def)

theorem parseModelfile_loses_text_witness:
  "\<not> fileExists sample_env (resolvePath sample_env ''./base'' ''/work'')
   \<and> parseModelfile sample_env sample_config fetch_ok ''FROM ./base model.gguf'' ''/work''
       = Some (Inr ''FROM ./base'')"
proof -
  have a: "\<not> fileExists sample_env (resolvePath sample_env ''./base'' ''/work'')"
    by (simp add: fileExists_def resolvePath_def sample_env_def)
  show ?thesis
    using a parseModelfile_loses_text[of sample_env "''/work''" sample_config fetch_ok]
    by blast
qed

section \<open>Properties of the host normalisation\<close>








section \<open>Properties of the line-delimited JSON decoder\<close>

text \<open>
  The lines the decoder hands to \<^verbatim>\<open>JSON.parse\<close>, whatever the chunks: the pieces between
  the newlines of the decoded chunks put end to end, in order, each yielded or warned
  about on its own, and the piece after the last newline when it is not empty. So the
  chunk boundaries matter only through the decoding of each chunk by itself: they do not
  matter when decoding the chunks one by one gives the text of the whole, which is so
  when every byte is ASCII.
\<close>

lemma emit_parts_append: "emit_parts P (xs @ ys) = emit_parts P xs @ emit_parts P ys"
  by (simp add: emit_parts_def)

lemma parseJSON_loop_lines:
  "0x0A \<notin> set buffer \<Longrightarrow>
   parseJSON_loop P buffer chunks
     = emit_parts P
         (butlast (split_js 0x0A (buffer @ concat (map TextDecoder_decode chunks)))
          @ filter (\<lambda>p. p \<noteq> [])
              [last (split_js 0x0A (buffer @ concat (map TextDecoder_decode chunks)))])"
proof (induction chunks arbitrary: buffer)
  case Nil
  then show ?case by (simp add: split_js_no_sep)
next
  case (Cons chunk chunks)
  let ?T = "concat (map TextDecoder_decode chunks)"
  let ?parts = "split_js 0x0A (buffer @ TextDecoder_decode chunk)"
  have n: "?parts \<noteq> []" by (rule split_js_nonempty)
  have l: "0x0A \<notin> set (last ?parts)" by (rule last_split_js_no_sep)
  have sp: "split_js 0x0A (buffer @ TextDecoder_decode chunk @ ?T)
      = butlast ?parts @ split_js 0x0A (last ?parts @ ?T)"
    using split_js_append[of "0x0A" "buffer @ TextDecoder_decode chunk" ?T] by simp
  have m: "split_js 0x0A (last ?parts @ ?T) \<noteq> []" by (rule split_js_nonempty)
  show ?case
    using Cons.IH[OF l] n m
    by (simp add: Let_def sp emit_parts_append butlast_append)
qed

lemma parseJSON_lines:
  "parseJSON P chunks
     = emit_parts P
         (butlast (split_js 0x0A (concat (map TextDecoder_decode chunks)))
          @ filter (\<lambda>p. p \<noteq> [])
              [last (split_js 0x0A (concat (map TextDecoder_decode chunks)))])"
  using parseJSON_loop_lines[of "[]" P chunks] by (simp add: parseJSON_def)

lemma utf8_decode_ascii_step:
  "b \<le> 0x7F \<Longrightarrow>
   utf8_decode cp seen 0 lower upper (b # bs) = unat b # utf8_decode 0 0 0 0x80 0xBF bs"
  by (subst utf8_decode.simps) simp

lemma utf8_decode_ascii:
  "list_all (\<lambda>b. b \<le> 0x7F) bs \<Longrightarrow> utf8_decode 0 0 0 0x80 0xBF bs = map unat bs"
  by (induction bs) (simp_all add: utf8_decode_ascii_step del: utf8_decode.simps(2))

lemma ascii_not_bom: "(b :: 8 word) \<le> 0x7F \<Longrightarrow> unat b \<noteq> 0xFEFF"
proof -
  assume "b \<le> 0x7F"
  then have "unat b \<le> 0x7F" by (simp add: word_le_nat_alt)
  then show ?thesis by simp
qed

lemma TextDecoder_decode_ascii:
  "list_all (\<lambda>b. b \<le> 0x7F) bs \<Longrightarrow> TextDecoder_decode bs = map unat bs"
proof (cases bs)
  case Nil
  then show ?thesis by (simp add: TextDecoder_decode_def)
next
  case (Cons b bs')
  assume a: "list_all (\<lambda>b. b \<le> 0x7F) bs"
  with Cons have b: "b \<le> 0x7F" by simp
  have d: "utf8_decode 0 0 0 0x80 0xBF bs = unat b # map unat bs'"
    using utf8_decode_ascii[OF a] Cons by (simp del: utf8_decode.simps)
  show ?thesis
    unfolding TextDecoder_decode_def d using ascii_not_bom[OF b] Cons by (simp del: utf8_decode.simps)
qed

lemma parseJSON_chunking:
  "concat (map TextDecoder_decode chunks) = TextDecoder_decode (concat chunks) \<Longrightarrow>
   parseJSON P chunks = parseJSON P [concat chunks]"
  unfolding parseJSON_lines by simp

lemma concat_decode_ascii:
  "list_all (list_all (\<lambda>b. b \<le> 0x7F)) chunks \<Longrightarrow>
   concat (map TextDecoder_decode chunks) = map unat (concat chunks)"
  by (induction chunks) (simp_all add: TextDecoder_decode_ascii)

lemma parseJSON_ascii_chunking:
  "list_all (list_all (\<lambda>b. b \<le> 0x7F)) chunks \<Longrightarrow>
   parseJSON P chunks = parseJSON P [concat chunks]"
proof -
  assume a: "list_all (list_all (\<lambda>b. b \<le> 0x7F)) chunks"
  then have "list_all (\<lambda>b. b \<le> 0x7F) (concat chunks)"
    by (induction chunks) simp_all
  then have c: "TextDecoder_decode (concat chunks) = map unat (concat chunks)"
    by (rule TextDecoder_decode_ascii)
  show ?thesis
    by (rule parseJSON_chunking) (simp only: c concat_decode_ascii[OF a])
qed

text \<open>
  C1: what the code does when a chunk boundary splits a character. The line
  \<^verbatim>\<open>{"a":"\<close> followed by the two bytes C3 A9 of U+00E9 and \<^verbatim>\<open>"}\<close>, sent in two chunks that
  part between those two bytes, reaches \<^verbatim>\<open>JSON.parse\<close> with two U+FFFD in place of the
  character; sent in one chunk it reaches \<^verbatim>\<open>JSON.parse\<close> with U+00E9.
\<close>

theorem parseJSON_split_character:
  "parseJSON JSON_parse
     [[0x7B, 0x22, 0x61, 0x22, 0x3A, 0x22, 0xC3], [0xA9, 0x22, 0x7D, 0x0A]]
     = emit_parts JSON_parse [[0x7B, 0x22, 0x61, 0x22, 0x3A, 0x22, 0xFFFD, 0xFFFD, 0x22, 0x7D]]
   \<and> parseJSON JSON_parse
     [[0x7B, 0x22, 0x61, 0x22, 0x3A, 0x22, 0xC3, 0xA9, 0x22, 0x7D, 0x0A]]
     = emit_parts JSON_parse [[0x7B, 0x22, 0x61, 0x22, 0x3A, 0x22, 0xE9, 0x22, 0x7D]]"
  by (simp add: parseJSON_def TextDecoder_decode_def emit_parts_def Let_def)

end
